theory Spec2Isabelle
  imports Complex_Main "HOL-Library.Char_ord" "HOL-Library.List_Lexorder"
begin

section \<open>The table of protest events\<close>

text \<open>
  The dashboard of \<^verbatim>\<open>app.py\<close> is one linear script over a pandas data frame: load,
  filter, aggregate. A data frame is modelled row by row, as a list of records in the
  order of the spreadsheet; a column that may hold a null (NaN) has an \<open>option\<close> type.
  The columns on which the script performs null handling (\<open>fillna\<close>, \<open>dropna\<close>,
  \<open>isna\<close>) are optional; \<open>year\<close>, which the script uses as the fill value of
  \<open>startyear\<close> and never tests for nulls, is a plain integer. Display-only columns
  that no computation reads (\<open>location\<close>, \<open>protesteridentity\<close>) are left out.
  Numbers that pandas holds as floats are rationals here: rounding errors of binary
  floating point are outside the model.
\<close>

datatype cell = Blank | Num rat | Text string


type_synonym date = "int \<times> int \<times> int"

record event =
  event_id :: nat
  country :: "string option"
  region :: "string option"
  year :: int
  startyear :: int
  startmonth :: int
  startday :: int
  start_date :: "date option"
  participants :: cell
  participants_numeric :: "rat option"
  protesterdemand1 :: "string option"
  stateresponse1 :: "string option"
  protesterviolence :: int
  violence_label :: "string option"


section \<open>Data loading\<close>

text \<open>\<open>Series.fillna(d)\<close>, on one value: a null becomes \<open>d\<close>.\<close>

definition fillna :: "'a \<Rightarrow> 'a option \<Rightarrow> 'a" where
  "fillna d v = (case v of None \<Rightarrow> d | Some x \<Rightarrow> x)"

text \<open>
  \<open>pd.to_datetime\<close> on a frame of year, month and day columns with
  \<open>errors="coerce"\<close>: the date when the three numbers form a date of the Gregorian
  calendar that the nanosecond timestamp of pandas can hold (its documented range runs
  from 1677-09-21 00:12:43 to 2262-04-11 23:47:16, so midnight of the first day is
  outside), and NaT (\<open>None\<close>) for every other combination.
\<close>

definition leap_year :: "int \<Rightarrow> bool" where
  "leap_year y = (y mod 4 = 0 \<and> (y mod 100 \<noteq> 0 \<or> y mod 400 = 0))"

definition days_in_month :: "int \<Rightarrow> int \<Rightarrow> int" where
  "days_in_month y m =
     (if m = 2 then (if leap_year y then 29 else 28)
      else if m = 4 \<or> m = 6 \<or> m = 9 \<or> m = 11 then 30 else 31)"

definition valid_date :: "int \<Rightarrow> int \<Rightarrow> int \<Rightarrow> bool" where
  "valid_date y m d = (1 \<le> m \<and> m \<le> 12 \<and> 1 \<le> d \<and> d \<le> days_in_month y m)"

definition date_le :: "date \<Rightarrow> date \<Rightarrow> bool" where
  "date_le a b =
     (case a of (y, m, d) \<Rightarrow> case b of (y', m', d') \<Rightarrow>
        y < y' \<or> (y = y' \<and> (m < m' \<or> (m = m' \<and> d \<le> d'))))"

definition timestamp_range :: "date \<Rightarrow> bool" where
  "timestamp_range dt = (date_le (1677, 9, 22) dt \<and> date_le dt (2262, 4, 11))"

definition to_datetime :: "int \<Rightarrow> int \<Rightarrow> int \<Rightarrow> date option" where
  "to_datetime y m d =
     (if valid_date y m d \<and> timestamp_range (y, m, d) then Some (y, m, d) else None)"


text \<open>The dictionary \<open>{0: "Peaceful", 1: "Violent"}\<close> of line 94; \<open>Series.map\<close>
  gives a null for a key the dictionary does not have.\<close>

definition violence_names :: "int \<rightharpoonup> string" where
  "violence_names = [0 \<mapsto> ''Peaceful'', 1 \<mapsto> ''Violent'']"







section \<open>Sidebar selections and the filter\<close>

text \<open>
  The values of the sidebar widgets. The multiselects offer the non-null values of a
  column, so a selection is a list of strings; the radio returns one of the strings
  \<open>"All"\<close>, \<open>"Peaceful only"\<close> and \<open>"Violent only"\<close>.
\<close>

record selection =
  year_range :: "int \<times> int"
  selected_regions :: "string list"
  selected_countries :: "string list"
  selected_demands :: "string list"
  selected_responses :: "string list"
  violence_opts :: string

text \<open>\<open>Series.between(a, b)\<close> (both ends inclusive), \<open>isin\<close> and \<open>isna\<close>, on one
  value. A null is in no list of strings.\<close>

definition between :: "int \<Rightarrow> int \<times> int \<Rightarrow> bool" where
  "between v rng = (fst rng \<le> v \<and> v \<le> snd rng)"

definition isin :: "'a option \<Rightarrow> 'a list \<Rightarrow> bool" where
  "isin v sel = (case v of None \<Rightarrow> False | Some s \<Rightarrow> s \<in> set sel)"

definition isna :: "'a option \<Rightarrow> bool" where
  "isna v = (v = None)"

text \<open>Lines 148 to 159: the mask of one row.\<close>

definition mask :: "selection \<Rightarrow> event \<Rightarrow> bool" where
  "mask sel r =
     (let m = (between (year r) (year_range sel)
               \<and> isin (region r) (selected_regions sel)
               \<and> isin (country r) (selected_countries sel)
               \<and> (isin (protesterdemand1 r) (selected_demands sel) \<or> isna (protesterdemand1 r))
               \<and> (isin (stateresponse1 r) (selected_responses sel) \<or> isna (stateresponse1 r)))
      in if violence_opts sel = ''Peaceful only'' then m \<and> protesterviolence r = 0
         else if violence_opts sel = ''Violent only'' then m \<and> protesterviolence r = 1
         else m)"

text \<open>Line 161: \<open>filtered = df[mask].copy()\<close>.\<close>

definition filtered :: "selection \<Rightarrow> event list \<Rightarrow> event list" where
  "filtered sel df = filter (mask sel) df"


section \<open>Helpers: what the pandas calls of the aggregations compute\<close>

text \<open>\<open>Series.dropna()\<close> and \<open>Series.unique()\<close> (values in order of first appearance).\<close>

fun dropna :: "'a option list \<Rightarrow> 'a list" where
  "dropna [] = []"
| "dropna (None # xs) = dropna xs"
| "dropna (Some x # xs) = x # dropna xs"

definition unique :: "'a list \<Rightarrow> 'a list" where
  "unique xs = rev (remdups (rev xs))"

definition nunique :: "'a option list \<Rightarrow> nat" where
  "nunique col = length (unique (dropna col))"

text \<open>
  Lines 117 to 123: the options that the region and country multiselects offer, and
  select by default. The countries on offer are those of the rows in a selected region.
\<close>

definition all_regions :: "event list \<Rightarrow> string list" where
  "all_regions df = sort (unique (dropna (map region df)))"

definition available_countries :: "event list \<Rightarrow> string list \<Rightarrow> string list" where
  "available_countries df regions =
     sort (unique (dropna (map country (filter (\<lambda>r. isin (region r) regions) df))))"

text \<open>
  \<open>Series.value_counts()\<close>: the non-null values with their numbers of occurrences,
  most frequent first. pandas does not promise an order among equal counts; the model
  sorts stably from the order of first appearance, and no theorem below depends on
  how ties fall.
\<close>

definition value_counts :: "'a option list \<Rightarrow> ('a \<times> nat) list" where
  "value_counts col =
     (let vals = dropna col
      in sort_key (\<lambda>kc. - int (snd kc)) (map (\<lambda>k. (k, count_list vals k)) (unique vals)))"

text \<open>
  \<open>groupby([k1, k2]).size().reset_index()\<close>: one entry for every pair of keys that
  occurs, with the number of its rows, in ascending order of the first and then of the
  second key. \<open>groupby\<close> leaves out the rows that have a null in a key.
\<close>

definition group_keys :: "('r \<Rightarrow> 'a::linorder option) \<Rightarrow> 'r list \<Rightarrow> 'a list" where
  "group_keys f rows = sort (remdups (dropna (map f rows)))"

definition group_size2 :: "('r \<Rightarrow> 'a option) \<Rightarrow> ('r \<Rightarrow> 'b option) \<Rightarrow> 'a \<Rightarrow> 'b \<Rightarrow> 'r list \<Rightarrow> nat" where
  "group_size2 f g a b rows = length (filter (\<lambda>r. f r = Some a \<and> g r = Some b) rows)"

definition groupby_size2 ::
  "('r \<Rightarrow> 'a::linorder option) \<Rightarrow> ('r \<Rightarrow> 'b::linorder option) \<Rightarrow> 'r list \<Rightarrow> (('a \<times> 'b) \<times> nat) list" where
  "groupby_size2 f g rows =
     map (\<lambda>k. (k, group_size2 f g (fst k) (snd k) rows))
       (filter (\<lambda>k. 0 < group_size2 f g (fst k) (snd k) rows)
          (List.product (group_keys f rows) (group_keys g rows)))"

text \<open>
  Float division of two columns: pandas raises nothing on a zero divisor, the result
  is NaN or an infinity, which is \<open>None\<close> here. \<open>round(1)\<close> rounds to one decimal, a
  tie going to the even neighbour, and leaves a non-finite value as it is.
\<close>

definition true_div :: "rat \<Rightarrow> rat \<Rightarrow> rat option" where
  "true_div a b = (if b = 0 then None else Some (a / b))"



text \<open>Python errors that the calls of the script can raise.\<close>

datatype py_error = ValueError

text \<open>\<open>Series.min()\<close> and \<open>Series.max()\<close> (NaN on an empty column) and \<open>int(...)\<close>,
  which raises ValueError on NaN.\<close>

definition series_min :: "int list \<Rightarrow> int option" where
  "series_min xs = (case xs of [] \<Rightarrow> None | x # ys \<Rightarrow> Some (fold min ys x))"

definition series_max :: "int list \<Rightarrow> int option" where
  "series_max xs = (case xs of [] \<Rightarrow> None | x # ys \<Rightarrow> Some (fold max ys x))"

definition py_int :: "int option \<Rightarrow> py_error + int" where
  "py_int v = (case v of None \<Rightarrow> Inl ValueError | Some n \<Rightarrow> Inr n)"

text \<open>The decimal text of an integer, as an f-string prints it.\<close>

function digits10 :: "nat \<Rightarrow> string" where
  "digits10 n =
     (if n < 10 then [''0123456789'' ! n]
      else digits10 (n div 10) @ [''0123456789'' ! (n mod 10)])"
  by pat_completeness auto
termination
  by (relation "measure (\<lambda>n. n)") auto

definition str_int :: "int \<Rightarrow> string" where
  "str_int i = (if i < 0 then CHR ''-'' # digits10 (nat (- i)) else digits10 (nat i))"

text \<open>The en dash (U+2013) of the year span, in UTF-8.\<close>

definition en_dash :: string where
  "en_dash = [char_of (226 :: nat), char_of (128 :: nat), char_of (147 :: nat)]"


section \<open>KPI row\<close>

text \<open>
  Lines 179 to 190. The record holds what the five metrics show; the number formats
  \<open>{:,}\<close> and \<open>{:.1f}\<close> are left to the presentation, so the total and the violent
  percentage stay numbers.
\<close>

record kpis =
  kpi_total :: nat
  kpi_countries :: nat
  kpi_regions :: nat
  kpi_violent_pct :: "rat option"
  kpi_year_span :: string

definition violent_pct :: "event list \<Rightarrow> rat option" where
  "violent_pct rows =
     (if length rows \<noteq> 0
      then map_option (\<lambda>q. q * 100)
             (true_div (of_int (sum_list (map protesterviolence rows))) (of_nat (length rows)))
      else Some 0)"

definition year_span :: "event list \<Rightarrow> py_error + string" where
  "year_span rows =
     (if length rows \<noteq> 0
      then (case py_int (series_min (map year rows)) of
              Inl e \<Rightarrow> Inl e
            | Inr lo \<Rightarrow>
                (case py_int (series_max (map year rows)) of
                   Inl e \<Rightarrow> Inl e
                 | Inr hi \<Rightarrow> Inr (str_int lo @ en_dash @ str_int hi)))
      else Inr ''N/A'')"

definition kpi_row :: "event list \<Rightarrow> py_error + kpis" where
  "kpi_row rows =
     (case year_span rows of
        Inl e \<Rightarrow> Inl e
      | Inr txt \<Rightarrow>
          Inr \<lparr> kpi_total = length rows,
                kpi_countries = nunique (map country rows),
                kpi_regions = nunique (map region rows),
                kpi_violent_pct = violent_pct rows,
                kpi_year_span = txt \<rparr>)"


section \<open>Violence rate over time\<close>






section \<open>Country by year heatmap\<close>

text \<open>Lines 419 to 429. \<open>top_n\<close> is the value of the slider (5 to 30).\<close>

definition top_countries_list :: "nat \<Rightarrow> event list \<Rightarrow> string list" where
  "top_countries_list top_n rows = map fst (take top_n (value_counts (map country rows)))"

definition heat_df :: "nat \<Rightarrow> event list \<Rightarrow> ((string \<times> int) \<times> nat) list" where
  "heat_df top_n rows =
     groupby_size2 country (\<lambda>r. Some (year r))
       (filter (\<lambda>r. isin (country r) (top_countries_list top_n rows)) rows)"

text \<open>
  \<open>pivot(index, columns, values).fillna(0)\<close>: row labels and column labels are the
  distinct first and second keys in ascending order, a cell without an entry becomes 0.
  \<open>pivot\<close> raises ValueError when a pair of keys occurs twice.
\<close>

record pivot_table =
  pivot_columns :: "int list"
  pivot_rows :: "(string \<times> nat list) list"

definition pivot_fillna0 :: "((string \<times> int) \<times> nat) list \<Rightarrow> py_error + pivot_table" where
  "pivot_fillna0 df =
     (if distinct (map fst df)
      then (let cols = sort (remdups (map (\<lambda>e. snd (fst e)) df))
            in Inr \<lparr> pivot_columns = cols,
                     pivot_rows =
                       map (\<lambda>c. (c, map (\<lambda>y. fillna 0 (map_of df (c, y))) cols))
                           (sort (remdups (map (\<lambda>e. fst (fst e)) df))) \<rparr>)
      else Inl ValueError)"

text \<open>Line 429: the rows in ascending order of their sums. pandas promises no order
  among equal sums; the model sorts stably, and no theorem below depends on it.\<close>

definition sort_by_total :: "pivot_table \<Rightarrow> pivot_table" where
  "sort_by_total p = p\<lparr> pivot_rows := sort_key (\<lambda>row. sum_list (snd row)) (pivot_rows p) \<rparr>"

definition heat_pivot :: "nat \<Rightarrow> event list \<Rightarrow> py_error + pivot_table" where
  "heat_pivot top_n rows =
     (case pivot_fillna0 (heat_df top_n rows) of
        Inl e \<Rightarrow> Inl e
      | Inr p \<Rightarrow> Inr (sort_by_total p))"


section \<open>Demands by region\<close>

text \<open>Lines 448 to 453: \<open>dropna(subset=["protesterdemand1"])\<close>, then the group sizes.\<close>

definition demand_region_df :: "event list \<Rightarrow> ((string \<times> string) \<times> nat) list" where
  "demand_region_df rows =
     groupby_size2 region protesterdemand1 (filter (\<lambda>r. \<not> isna (protesterdemand1 r)) rows)"


section \<open>The filter contract, as the specification words it\<close>

text \<open>
  The constraint set of the filter engine: a year range, four sets of selected values
  and one of three violence options. \<open>radio_label\<close> is the text of the radio button
  that stands for an option. \<open>satisfies_constraints\<close> follows the specification, not
  the script; the two are compared below.
\<close>

datatype violence_choice = AnyViolence | PeacefulOnly | ViolentOnly

definition radio_label :: "violence_choice \<Rightarrow> string" where
  "radio_label v = (case v of AnyViolence \<Rightarrow> ''All'' | PeacefulOnly \<Rightarrow> ''Peaceful only''
                     | ViolentOnly \<Rightarrow> ''Violent only'')"

definition satisfies_constraints ::
  "int \<Rightarrow> int \<Rightarrow> string set \<Rightarrow> string set \<Rightarrow> string set \<Rightarrow> string set \<Rightarrow> violence_choice \<Rightarrow> event \<Rightarrow> bool" where
  "satisfies_constraints a b regions countries demands responses v r =
     (a \<le> year r \<and> year r \<le> b
      \<and> region r \<in> Some ` regions
      \<and> country r \<in> Some ` countries
      \<and> (protesterdemand1 r \<in> Some ` demands \<or> protesterdemand1 r = None)
      \<and> (stateresponse1 r \<in> Some ` responses \<or> stateresponse1 r = None)
      \<and> (case v of AnyViolence \<Rightarrow> True
                  | PeacefulOnly \<Rightarrow> protesterviolence r = 0
                  | ViolentOnly \<Rightarrow> protesterviolence r = 1))"


section \<open>Sample data\<close>

text \<open>Small concrete rows and selections, on which the theorems below are instantiated.\<close>

definition sample_event :: "nat \<Rightarrow> string option \<Rightarrow> string option \<Rightarrow> int \<Rightarrow> string option \<Rightarrow> int \<Rightarrow> event" where
  "sample_event i c g y d v =
     \<lparr> event_id = i, country = c, region = g, year = y, startyear = y, startmonth = 1,
       startday = 1, start_date = to_datetime y 1 1, participants = Blank,
       participants_numeric = None, protesterdemand1 = d, stateresponse1 = None,
       protesterviolence = v, violence_label = violence_names v \<rparr>"


definition select_all :: "string list \<Rightarrow> string list \<Rightarrow> selection" where
  "select_all regions countries =
     \<lparr> year_range = (1990, 2020), selected_regions = regions, selected_countries = countries,
       selected_demands = [], selected_responses = [], violence_opts = ''All'' \<rparr>"


definition sample_rows :: "event list" where
  "sample_rows =
     [sample_event 1 (Some ''India'') (Some ''Asia'') 2000 None 0,
      sample_event 2 (Some ''India'') (Some ''Asia'') 2000 (Some ''labor wage dispute'') 1,
      sample_event 3 (Some ''France'') (Some ''Europe'') 2001 (Some ''land farm issue'') 0]"


section \<open>The filter\<close>

lemma isin_iff: "isin v sel \<longleftrightarrow> v \<in> Some ` set sel"
  by (cases v) (auto simp: isin_def)

text \<open>
  Claim C1. For every table, every year range \<open>[a, b]\<close>, every selection of regions,
  countries, demands and responses and every violence option, the filtered table is
  exactly the rows of the table, in their order, that satisfy all constraints of the
  specification: \<open>a \<le> year \<le> b\<close>, region and country among the selected ones, demand
  and response among the selected ones or missing, and the violence constraint.
\<close>

theorem filtered_exact:
  "filtered \<lparr> year_range = (a, b), selected_regions = regions, selected_countries = countries,
               selected_demands = demands, selected_responses = responses,
               violence_opts = radio_label v \<rparr> df
   = filter (satisfies_constraints a b (set regions) (set countries) (set demands) (set responses) v) df"
  unfolding filtered_def
  by (rule filter_cong[OF refl])
     (cases v; simp add: mask_def satisfies_constraints_def radio_label_def isin_iff isna_def between_def)

theorem filtered_exact_witness:
  "filtered \<lparr> year_range = (2000, 2000), selected_regions = [''Asia'', ''Europe''],
               selected_countries = [''India'', ''France''],
               selected_demands = [''labor wage dispute''],
               selected_responses = [], violence_opts = radio_label AnyViolence \<rparr> sample_rows
     = take 2 sample_rows"
  unfolding filtered_exact
  by (simp add: satisfies_constraints_def sample_rows_def sample_event_def)

text \<open>
  Claim C10. A row whose region or whose country is missing is in no filtered table,
  whatever is selected, also when all regions and countries on offer are: \<open>isin\<close>
  is false on a null, and only the demand and the response have the \<open>isna\<close>
  alternative.
\<close>

theorem null_region_or_country_excluded:
  "region r = None \<or> country r = None \<Longrightarrow> r \<notin> set (filtered sel df)"
  by (auto simp: filtered_def mask_def isin_def Let_def split: if_splits)

theorem null_region_or_country_excluded_witness:
  "region (sample_event 1 (Some ''Kenya'') None 2000 None 0) = None
   \<and> all_regions [sample_event 1 (Some ''Kenya'') None 2000 None 0,
                   sample_event 2 (Some ''Kenya'') (Some ''Africa'') 2000 None 0] = [''Africa'']
   \<and> available_countries
         [sample_event 1 (Some ''Kenya'') None 2000 None 0,
          sample_event 2 (Some ''Kenya'') (Some ''Africa'') 2000 None 0] [''Africa''] = [''Kenya'']
   \<and> sample_event 1 (Some ''Kenya'') None 2000 None 0
       \<notin> set (filtered (select_all [''Africa''] [''Kenya''])
                [sample_event 1 (Some ''Kenya'') None 2000 None 0,
                 sample_event 2 (Some ''Kenya'') (Some ''Africa'') 2000 None 0])"
proof -
  have a: "all_regions [sample_event 1 (Some ''Kenya'') None 2000 None 0,
                        sample_event 2 (Some ''Kenya'') (Some ''Africa'') 2000 None 0] = [''Africa'']"
    by (simp add: all_regions_def unique_def sample_event_def)
  have c: "available_countries
             [sample_event 1 (Some ''Kenya'') None 2000 None 0,
              sample_event 2 (Some ''Kenya'') (Some ''Africa'') 2000 None 0] [''Africa''] = [''Kenya'']"
    by (simp add: available_countries_def unique_def sample_event_def isin_def)
  show ?thesis
    using a c null_region_or_country_excluded
          [of "sample_event 1 (Some ''Kenya'') None 2000 None 0" "select_all [''Africa''] [''Kenya'']"
              "[sample_event 1 (Some ''Kenya'') None 2000 None 0,
                 sample_event 2 (Some ''Kenya'') (Some ''Africa'') 2000 None 0]"]
    by (simp add: sample_event_def)
qed


section \<open>The loader\<close>









section \<open>KPI row on an empty selection\<close>

text \<open>
  Claim C3. When the filtered table is empty, the KPI row is computed without an error:
  total, countries and regions are 0, the violent percentage is 0 and the year span is
  "N/A".
\<close>

theorem kpi_row_empty:
  "filtered sel df = [] \<Longrightarrow>
   kpi_row (filtered sel df)
     = Inr \<lparr> kpi_total = 0, kpi_countries = 0, kpi_regions = 0,
             kpi_violent_pct = Some 0, kpi_year_span = ''N/A'' \<rparr>"
  by (simp add: kpi_row_def year_span_def violent_pct_def nunique_def unique_def)

theorem kpi_row_empty_witness:
  "filtered (select_all [] []) [sample_event 1 (Some ''Kenya'') (Some ''Africa'') 2000 None 0] = []
   \<and> kpi_row (filtered (select_all [] []) [sample_event 1 (Some ''Kenya'') (Some ''Africa'') 2000 None 0])
     = Inr \<lparr> kpi_total = 0, kpi_countries = 0, kpi_regions = 0,
             kpi_violent_pct = Some 0, kpi_year_span = ''N/A'' \<rparr>"
proof -
  have e: "filtered (select_all [] []) [sample_event 1 (Some ''Kenya'') (Some ''Africa'') 2000 None 0] = []"
    by (simp add: filtered_def mask_def select_all_def sample_event_def isin_def)
  show ?thesis using e kpi_row_empty [OF e] by simp
qed




section \<open>Violence rate by year\<close>

lemma dropna_map_Some [simp]: "dropna (map (\<lambda>r. Some (f r)) rows) = map f rows"
  by (induction rows) simp_all

lemma set_dropna [simp]: "set (dropna xs) = {x. Some x \<in> set xs}"
  by (induction xs rule: dropna.induct) auto

lemma set_group_keys [simp]: "set (group_keys f rows) = {k. \<exists>r \<in> set rows. f r = Some k}"
  by (auto simp: group_keys_def image_iff) metis

lemma distinct_group_keys [simp]: "distinct (group_keys f rows)"
  by (simp add: group_keys_def)

lemma sorted_group_keys [simp]: "sorted (group_keys f rows)"
  by (simp add: group_keys_def)









section \<open>Group sizes over two keys\<close>

lemma map_of_map_key:
  "map_of (map (\<lambda>k. (k, h k)) ks) k = (if k \<in> set ks then Some (h k) else None)"
  by (induction ks) auto

lemma group_size2_pos_iff:
  "0 < group_size2 f g a b rows \<longleftrightarrow> (\<exists>r \<in> set rows. f r = Some a \<and> g r = Some b)"
  by (auto simp: group_size2_def filter_empty_conv)

lemma map_fst_groupby_size2:
  "map fst (groupby_size2 f g rows)
     = filter (\<lambda>k. 0 < group_size2 f g (fst k) (snd k) rows)
         (List.product (group_keys f rows) (group_keys g rows))"
  by (simp add: groupby_size2_def comp_def)

lemma distinct_groupby_size2: "distinct (map fst (groupby_size2 f g rows))"
  by (simp add: map_fst_groupby_size2 distinct_product)

lemma keys_groupby_size2:
  "set (map fst (groupby_size2 f g rows)) = {(a, b). \<exists>r \<in> set rows. f r = Some a \<and> g r = Some b}"
  unfolding map_fst_groupby_size2 by (auto simp: group_size2_pos_iff)

lemma map_of_groupby_size2:
  "map_of (groupby_size2 f g rows) (a, b)
     = (if 0 < group_size2 f g a b rows then Some (group_size2 f g a b rows) else None)"
  unfolding groupby_size2_def map_of_map_key
  by (auto simp: group_size2_pos_iff)

lemma sum_list_filter_pos:
  "sum_list (map h (filter (\<lambda>k. 0 < h k) ks)) = sum_list (map (h :: 'a \<Rightarrow> nat) ks)"
  by (induction ks) auto

lemma length_filter_disj:
  "(\<And>x. x \<in> set xs \<Longrightarrow> \<not> (A x \<and> B x)) \<Longrightarrow>
   length (filter (\<lambda>x. A x \<or> B x) xs) = length (filter A xs) + length (filter B xs)"
  by (induction xs) auto

lemma sum_group_sizes:
  "distinct ks \<Longrightarrow>
   (\<Sum>k\<leftarrow>ks. length (filter (\<lambda>x. P x \<and> key x = Some k) xs))
     = length (filter (\<lambda>x. P x \<and> key x \<in> Some ` set ks) xs)"
proof (induction ks)
  case Nil
  then show ?case by simp
next
  case (Cons k ks)
  have "length (filter (\<lambda>x. P x \<and> key x \<in> Some ` set (k # ks)) xs)
          = length (filter (\<lambda>x. (P x \<and> key x = Some k) \<or> (P x \<and> key x \<in> Some ` set ks)) xs)"
    by (rule arg_cong[where f = length], rule filter_cong) auto
  also have "\<dots> = length (filter (\<lambda>x. P x \<and> key x = Some k) xs)
                  + length (filter (\<lambda>x. P x \<and> key x \<in> Some ` set ks) xs)"
    using Cons.prems by (intro length_filter_disj) auto
  finally show ?case using Cons by simp
qed

lemma sum_list_product:
  "(\<Sum>k\<leftarrow>List.product as bs. h (fst k) (snd k)) = (\<Sum>a\<leftarrow>as. \<Sum>b\<leftarrow>bs. (h a b :: nat))"
  by (induction as) (simp_all add: comp_def)

lemma sum_groupby_size2:
  "sum_list (map snd (groupby_size2 f g rows))
     = length (filter (\<lambda>r. f r \<noteq> None \<and> g r \<noteq> None) rows)"
proof -
  let ?as = "group_keys f rows" and ?bs = "group_keys g rows"
  have "sum_list (map snd (groupby_size2 f g rows))
          = (\<Sum>k\<leftarrow>List.product ?as ?bs. group_size2 f g (fst k) (snd k) rows)"
    by (simp add: groupby_size2_def comp_def sum_list_filter_pos)
  also have "\<dots> = (\<Sum>a\<leftarrow>?as. \<Sum>b\<leftarrow>?bs. group_size2 f g a b rows)"
    by (rule sum_list_product)
  also have "\<dots> = (\<Sum>a\<leftarrow>?as. length (filter (\<lambda>r. f r = Some a \<and> g r \<in> Some ` set ?bs) rows))"
    unfolding group_size2_def by (simp add: sum_group_sizes)
  also have "\<dots> = (\<Sum>a\<leftarrow>?as. length (filter (\<lambda>r. g r \<noteq> None \<and> f r = Some a) rows))"
    by (intro arg_cong[where f = sum_list] map_cong refl arg_cong[where f = length] filter_cong)
       (auto simp: image_iff)
  also have "\<dots> = length (filter (\<lambda>r. g r \<noteq> None \<and> f r \<in> Some ` set ?as) rows)"
    by (simp add: sum_group_sizes)
  also have "\<dots> = length (filter (\<lambda>r. f r \<noteq> None \<and> g r \<noteq> None) rows)"
    by (intro arg_cong[where f = length] filter_cong refl) (auto simp: image_iff)
  finally show ?thesis .
qed

text \<open>
  Claim C9. \<open>demand_region_df\<close> has one entry for each pair of a region and a demand
  that occurs in a filtered row, holding the number of those rows; a row whose demand
  is missing is dropped and adds to no group (the filter, by contrast, lets it pass),
  so the sizes add up to the number of rows that have a demand (and a region).
\<close>

theorem demand_region_counts:
  "distinct (map fst (demand_region_df rows))
   \<and> map_of (demand_region_df rows) (g, d)
       = (if \<exists>r \<in> set rows. region r = Some g \<and> protesterdemand1 r = Some d
          then Some (length (filter (\<lambda>r. region r = Some g \<and> protesterdemand1 r = Some d) rows))
          else None)
   \<and> sum_list (map snd (demand_region_df rows))
       = length (filter (\<lambda>r. region r \<noteq> None \<and> protesterdemand1 r \<noteq> None) rows)
   \<and> (protesterdemand1 e = None \<longrightarrow> demand_region_df (e # rows) = demand_region_df rows)"
proof -
  let ?rows = "filter (\<lambda>r. \<not> isna (protesterdemand1 r)) rows"
  have cnt: "group_size2 region protesterdemand1 g d ?rows
               = length (filter (\<lambda>r. region r = Some g \<and> protesterdemand1 r = Some d) rows)"
    unfolding group_size2_def
    by (simp add: isna_def) (rule arg_cong[where f = length], rule filter_cong, auto)
  have pos: "0 < length (filter (\<lambda>r. region r = Some g \<and> protesterdemand1 r = Some d) rows)
               \<longleftrightarrow> (\<exists>r \<in> set rows. region r = Some g \<and> protesterdemand1 r = Some d)"
    by (auto simp: filter_empty_conv)
  have "map_of (demand_region_df rows) (g, d)
       = (if \<exists>r \<in> set rows. region r = Some g \<and> protesterdemand1 r = Some d
          then Some (length (filter (\<lambda>r. region r = Some g \<and> protesterdemand1 r = Some d) rows))
          else None)"
    unfolding demand_region_df_def map_of_groupby_size2 cnt using pos by simp
  moreover have "sum_list (map snd (demand_region_df rows))
       = length (filter (\<lambda>r. region r \<noteq> None \<and> protesterdemand1 r \<noteq> None) rows)"
    unfolding demand_region_df_def sum_groupby_size2
    by (simp add: isna_def) (rule arg_cong[where f = length], rule filter_cong, auto)
  ultimately show ?thesis
    by (simp add: distinct_groupby_size2 demand_region_df_def isna_def)
qed

theorem demand_region_counts_witness:
  "protesterdemand1 (sample_event 1 (Some ''India'') (Some ''Asia'') 2000 None 0) = None
   \<and> demand_region_df sample_rows
       = [((''Asia'', ''labor wage dispute''), 1), ((''Europe'', ''land farm issue''), 1)]
   \<and> demand_region_df (tl sample_rows) = demand_region_df sample_rows
   \<and> sample_event 1 (Some ''India'') (Some ''Asia'') 2000 None 0
        \<in> set (filtered (select_all [''Asia'', ''Europe''] [''India'', ''France'']) sample_rows)"
proof -
  have n: "protesterdemand1 (sample_event 1 (Some ''India'') (Some ''Asia'') 2000 None 0) = None"
    by (simp add: sample_event_def)
  have e: "demand_region_df sample_rows
       = [((''Asia'', ''labor wage dispute''), 1), ((''Europe'', ''land farm issue''), 1)]"
    by code_simp
  have f: "sample_event 1 (Some ''India'') (Some ''Asia'') 2000 None 0
        \<in> set (filtered (select_all [''Asia'', ''Europe''] [''India'', ''France'']) sample_rows)"
    by (simp add: filtered_def mask_def select_all_def sample_rows_def sample_event_def
          isin_def isna_def between_def)
  have "demand_region_df (sample_event 1 (Some ''India'') (Some ''Asia'') 2000 None 0 # tl sample_rows)
          = demand_region_df (tl sample_rows)"
    using n demand_region_counts
            [of "tl sample_rows" "''Asia''" "''labor wage dispute''"
               "sample_event 1 (Some ''India'') (Some ''Asia'') 2000 None 0"]
    by blast
  then have "demand_region_df (tl sample_rows) = demand_region_df sample_rows"
    by (simp add: sample_rows_def)
  with n e f show ?thesis by simp
qed


section \<open>The most frequent countries\<close>

lemma count_list_dropna: "count_list (dropna col) k = length (filter (\<lambda>x. x = Some k) col)"
  by (induction col rule: dropna.induct) auto

lemma set_unique [simp]: "set (unique xs) = set xs"
  by (simp add: unique_def)

lemma distinct_unique [simp]: "distinct (unique xs)"
  by (simp add: unique_def)

lemma distinct_map_fst_sort_key:
  "distinct (map fst (sort_key h xs)) = distinct (map fst xs)"
  by (simp add: distinct_map)

lemma value_counts_keys:
  "set (map fst (value_counts col)) = {c. Some c \<in> set col}"
  "distinct (map fst (value_counts col))"
  by (simp_all add: value_counts_def Let_def distinct_map_fst_sort_key comp_def image_image)

lemma value_counts_entry:
  "(k, n) \<in> set (value_counts col) \<Longrightarrow> n = length (filter (\<lambda>x. x = Some k) col)"
  by (auto simp: value_counts_def Let_def count_list_dropna)

lemma value_counts_sorted: "sorted (map (\<lambda>kc. - int (snd kc)) (value_counts col))"
  by (simp add: value_counts_def Let_def)

lemma length_value_counts: "length (value_counts col) = nunique col"
  by (simp add: value_counts_def nunique_def Let_def)

lemma sorted_map_appendD:
  "sorted (map h (xs @ ys)) \<Longrightarrow> x \<in> set xs \<Longrightarrow> y \<in> set ys \<Longrightarrow> h x \<le> h y"
  by (auto simp: sorted_append)

lemma set_top_countries_subset:
  "set (top_countries_list n rows) \<subseteq> {c. \<exists>r \<in> set rows. country r = Some c}"
proof -
  have "set (top_countries_list n rows) \<subseteq> set (map fst (value_counts (map country rows)))"
    unfolding top_countries_list_def by (auto dest: in_set_takeD)
  also have "\<dots> = {c. \<exists>r \<in> set rows. country r = Some c}"
    unfolding value_counts_keys by (auto simp: image_iff) metis
  finally show ?thesis .
qed

lemma distinct_top_countries: "distinct (top_countries_list n rows)"
  unfolding top_countries_list_def take_map [symmetric]
  by (rule distinct_take) (rule value_counts_keys)

lemma length_top_countries:
  "length (top_countries_list n rows) = min n (nunique (map country rows))"
  by (simp add: top_countries_list_def length_value_counts min.commute)

lemma top_countries_dominate:
  assumes "c \<in> set (top_countries_list n rows)" and "c' \<notin> set (top_countries_list n rows)"
  shows "length (filter (\<lambda>r. country r = Some c') rows) \<le> length (filter (\<lambda>r. country r = Some c) rows)"
proof (cases "\<exists>r \<in> set rows. country r = Some c'")
  case False
  then have "filter (\<lambda>r. country r = Some c') rows = []"
    by (auto simp: filter_empty_conv)
  then show ?thesis by simp
next
  case True
  let ?vc = "value_counts (map country rows)"
  have cnt: "\<And>k m. (k, m) \<in> set ?vc \<Longrightarrow> m = length (filter (\<lambda>r. country r = Some k) rows)"
    by (drule value_counts_entry) (simp add: length_filter_map comp_def)
  from True have "c' \<in> set (map fst ?vc)"
    unfolding value_counts_keys by (auto simp: image_iff) metis
  then obtain m' where m': "(c', m') \<in> set ?vc" by auto
  have "(c', m') \<notin> set (take n ?vc)"
    using assms(2) unfolding top_countries_list_def by force
  with m' have d: "(c', m') \<in> set (drop n ?vc)"
    by (metis Un_iff append_take_drop_id set_append)
  from assms(1) obtain m where m: "(c, m) \<in> set (take n ?vc)"
    unfolding top_countries_list_def by auto
  have "sorted (map (\<lambda>kc. - int (snd kc)) (take n ?vc @ drop n ?vc))"
    using value_counts_sorted [of "map country rows"] by simp
  then have "- int (snd (c, m)) \<le> - int (snd (c', m'))"
    using m d by (rule sorted_map_appendD)
  then have "m' \<le> m" by simp
  moreover have "m = length (filter (\<lambda>r. country r = Some c) rows)"
    using m by (intro cnt) (rule in_set_takeD)
  moreover have "m' = length (filter (\<lambda>r. country r = Some c') rows)"
    using m' by (rule cnt)
  ultimately show ?thesis by simp
qed


section \<open>The country by year matrix\<close>

lemma heat_sub_country:
  "r \<in> set (filter (\<lambda>r. isin (country r) (top_countries_list n rows)) rows)
     \<longleftrightarrow> r \<in> set rows \<and> (\<exists>c \<in> set (top_countries_list n rows). country r = Some c)"
  by (cases "country r") (auto simp: isin_def)

lemma heat_df_keys:
  "set (map fst (heat_df n rows))
     = {(c, y). c \<in> set (top_countries_list n rows) \<and> (\<exists>r \<in> set rows. country r = Some c \<and> year r = y)}"
  unfolding heat_df_def keys_groupby_size2
  by (auto simp: isin_def split: option.splits)

lemma heat_df_index:
  "set (map (\<lambda>e. fst (fst e)) (heat_df n rows)) = set (top_countries_list n rows)"
proof -
  have "set (map (\<lambda>e. fst (fst e)) (heat_df n rows)) = fst ` set (map fst (heat_df n rows))"
    by (simp add: image_image)
  also have "\<dots> = {c. c \<in> set (top_countries_list n rows) \<and> (\<exists>r \<in> set rows. country r = Some c)}"
    unfolding heat_df_keys by (auto simp: image_iff) blast
  also have "\<dots> = set (top_countries_list n rows)"
    using set_top_countries_subset [of n rows] by auto
  finally show ?thesis .
qed

lemma heat_df_columns:
  "set (map (\<lambda>e. snd (fst e)) (heat_df n rows))
     = year ` {r \<in> set rows. country r \<in> Some ` set (top_countries_list n rows)}"
proof -
  have "set (map (\<lambda>e. snd (fst e)) (heat_df n rows)) = snd ` set (map fst (heat_df n rows))"
    by (simp add: image_image)
  also have "\<dots> = year ` {r \<in> set rows. country r \<in> Some ` set (top_countries_list n rows)}"
    unfolding heat_df_keys by (auto simp: image_iff) metis
  finally show ?thesis .
qed

lemma heat_df_cell:
  "c \<in> set (top_countries_list n rows) \<Longrightarrow>
   fillna 0 (map_of (heat_df n rows) (c, y))
     = length (filter (\<lambda>r. country r = Some c \<and> year r = y) rows)"
proof -
  assume top: "c \<in> set (top_countries_list n rows)"
  have "filter (\<lambda>r. country r = Some c \<and> Some (year r) = Some y)
          (filter (\<lambda>r. isin (country r) (top_countries_list n rows)) rows)
        = filter (\<lambda>r. country r = Some c \<and> year r = y) rows"
    unfolding filter_filter using top by (intro filter_cong refl) (auto simp: isin_def)
  then have "group_size2 country (\<lambda>r. Some (year r)) c y
               (filter (\<lambda>r. isin (country r) (top_countries_list n rows)) rows)
             = length (filter (\<lambda>r. country r = Some c \<and> year r = y) rows)"
    by (simp add: group_size2_def)
  then show ?thesis
    unfolding heat_df_def map_of_groupby_size2 by (simp add: fillna_def)
qed

lemma sorted_distinct_sort_remdups:
  "set xs = set ys \<Longrightarrow> sort (remdups xs) = sort (remdups ys)"
  by (rule sorted_distinct_set_unique) simp_all

lemma heat_pivot_eq:
  "heat_pivot n rows
     = Inr \<lparr> pivot_columns =
               sort (remdups (map year
                 (filter (\<lambda>r. country r \<in> Some ` set (top_countries_list n rows)) rows))),
             pivot_rows =
               sort_key (\<lambda>row. sum_list (snd row))
                 (map (\<lambda>c. (c, map (\<lambda>y. fillna 0 (map_of (heat_df n rows) (c, y)))
                        (sort (remdups (map year
                           (filter (\<lambda>r. country r \<in> Some ` set (top_countries_list n rows)) rows))))))
                      (sort (remdups (map (\<lambda>e. fst (fst e)) (heat_df n rows))))) \<rparr>"
proof -
  have d: "distinct (map fst (heat_df n rows))"
    unfolding heat_df_def by (rule distinct_groupby_size2)
  have c: "sort (remdups (map (\<lambda>e. snd (fst e)) (heat_df n rows)))
             = sort (remdups (map year
                 (filter (\<lambda>r. country r \<in> Some ` set (top_countries_list n rows)) rows)))"
    by (rule sorted_distinct_sort_remdups) (simp only: heat_df_columns, simp)
  show ?thesis
    unfolding heat_pivot_def pivot_fillna0_def sort_by_total_def
    using d by (simp add: c Let_def)
qed

lemma pivot_row_cells:
  assumes "heat_pivot n rows = Inr p" and "(c, cells) \<in> set (pivot_rows p)"
  shows "c \<in> set (top_countries_list n rows)"
    and "cells = map (\<lambda>y. length (filter (\<lambda>r. country r = Some c \<and> year r = y) rows))
                   (pivot_columns p)"
proof -
  from assms have in_rows: "c \<in> set (map (\<lambda>e. fst (fst e)) (heat_df n rows))"
    and cells: "cells = map (\<lambda>y. fillna 0 (map_of (heat_df n rows) (c, y))) (pivot_columns p)"
    unfolding heat_pivot_eq by auto
  from in_rows show top: "c \<in> set (top_countries_list n rows)"
    unfolding heat_df_index .
  show "cells = map (\<lambda>y. length (filter (\<lambda>r. country r = Some c \<and> year r = y) rows))
                   (pivot_columns p)"
    unfolding cells using top by (simp add: heat_df_cell)
qed

text \<open>
  Claim C8. In the matrix of the heatmap, the cells of the row of a country, over all
  year columns, add up to the number of filtered rows of that country (and the row has
  one cell for each column).
\<close>

theorem heat_pivot_row_sum:
  assumes "heat_pivot top_n rows = Inr p" and "(c, cells) \<in> set (pivot_rows p)"
  shows "length cells = length (pivot_columns p)
         \<and> sum_list cells = length (filter (\<lambda>r. country r = Some c) rows)"
proof -
  note row = pivot_row_cells [OF assms]
  have cols: "set (pivot_columns p)
                = year ` {r \<in> set rows. country r \<in> Some ` set (top_countries_list top_n rows)}"
    and dist: "distinct (pivot_columns p)"
    using assms(1) unfolding heat_pivot_eq by auto
  have "sum_list cells
          = (\<Sum>y\<leftarrow>pivot_columns p.
               length (filter (\<lambda>r. country r = Some c \<and> Some (year r) = Some y) rows))"
    unfolding row(2) by simp
  also have "\<dots> = length (filter (\<lambda>r. country r = Some c \<and> Some (year r) \<in> Some ` set (pivot_columns p)) rows)"
    using dist by (rule sum_group_sizes)
  also have "\<dots> = length (filter (\<lambda>r. country r = Some c) rows)"
    using row(1) unfolding cols
    by (intro arg_cong[where f = length] filter_cong refl) (auto simp: image_iff)
  finally show ?thesis
    using row(2) by simp
qed

theorem heat_pivot_row_sum_witness:
  "heat_pivot 5 sample_rows
     = Inr \<lparr> pivot_columns = [2000, 2001],
             pivot_rows = [(''France'', [0, 1]), (''India'', [2, 0])] \<rparr>
   \<and> (''India'', [2, 0]) \<in> set [(''France'', [0, 1 :: nat]), (''India'', [2, 0])]
   \<and> length (filter (\<lambda>r. country r = Some ''India'') sample_rows) = 2"
proof -
  have e: "heat_pivot 5 sample_rows
     = Inr \<lparr> pivot_columns = [2000, 2001],
             pivot_rows = [(''France'', [0, 1]), (''India'', [2, 0])] \<rparr>"
    by code_simp
  have "sum_list [2, 0 :: nat] = length (filter (\<lambda>r. country r = Some ''India'') sample_rows)"
    using heat_pivot_row_sum [OF e, of "''India''" "[2, 0]"] by simp
  with e show ?thesis by simp
qed

text \<open>
  Claim C7. For every filtered table and every number \<open>top_n\<close> of countries (the
  slider gives 5 to 30; the proof needs no bound), the matrix is built without an error
  and: its row labels are distinct and are the countries of \<open>top_countries_list\<close>,
  which are \<open>min top_n k\<close> of the \<open>k\<close> countries of the table, each with at least as
  many filtered rows as any country left out; its columns are the years, ascending,
  in which these countries have rows; each cell is the number of filtered rows of its
  country and year, hence 0 where there is none; and the rows are in ascending order
  of their totals.
\<close>

theorem heat_pivot_top_countries:
  "\<exists>p. heat_pivot top_n rows = Inr p
     \<and> distinct (map fst (pivot_rows p))
     \<and> set (map fst (pivot_rows p)) = set (top_countries_list top_n rows)
     \<and> set (map fst (pivot_rows p)) \<subseteq> {c. \<exists>r \<in> set rows. country r = Some c}
     \<and> length (pivot_rows p) = min top_n (nunique (map country rows))
     \<and> (\<forall>c \<in> set (map fst (pivot_rows p)). \<forall>c'. c' \<notin> set (map fst (pivot_rows p)) \<longrightarrow>
           length (filter (\<lambda>r. country r = Some c') rows)
             \<le> length (filter (\<lambda>r. country r = Some c) rows))
     \<and> pivot_columns p
         = sort (remdups (map year
             (filter (\<lambda>r. country r \<in> Some ` set (map fst (pivot_rows p))) rows)))
     \<and> (\<forall>(c, cells) \<in> set (pivot_rows p).
           cells = map (\<lambda>y. length (filter (\<lambda>r. country r = Some c \<and> year r = y) rows))
                     (pivot_columns p))
     \<and> sorted (map (\<lambda>row. sum_list (snd row)) (pivot_rows p))"
proof -
  let ?top = "top_countries_list top_n rows"
  obtain p where p: "heat_pivot top_n rows = Inr p"
    unfolding heat_pivot_eq by blast
  let ?idx = "sort (remdups (map (\<lambda>e. fst (fst e)) (heat_df top_n rows)))"
  have labels: "map fst (pivot_rows p)
                  = map fst (sort_key (\<lambda>row. sum_list (snd row))
                      (map (\<lambda>c. (c, map (\<lambda>y. fillna 0 (map_of (heat_df top_n rows) (c, y)))
                                    (pivot_columns p))) ?idx))"
    using p unfolding heat_pivot_eq by auto
  have set_labels: "set (map fst (pivot_rows p)) = set ?top"
    unfolding labels using heat_df_index [of top_n rows] by (simp add: image_image)
  have dist_labels: "distinct (map fst (pivot_rows p))"
    unfolding labels distinct_map_fst_sort_key by (simp add: comp_def)
  have "length (pivot_rows p) = length (map fst (pivot_rows p))"
    by simp
  also have "\<dots> = card (set ?top)"
    using dist_labels set_labels by (metis distinct_card)
  also have "\<dots> = length ?top"
    by (rule distinct_card) (rule distinct_top_countries)
  finally have len: "length (pivot_rows p) = min top_n (nunique (map country rows))"
    by (simp add: length_top_countries)
  have dom: "\<forall>c \<in> set (map fst (pivot_rows p)). \<forall>c'. c' \<notin> set (map fst (pivot_rows p)) \<longrightarrow>
           length (filter (\<lambda>r. country r = Some c') rows)
             \<le> length (filter (\<lambda>r. country r = Some c) rows)"
    unfolding set_labels by (blast intro: top_countries_dominate)
  have cols: "pivot_columns p
         = sort (remdups (map year
             (filter (\<lambda>r. country r \<in> Some ` set (map fst (pivot_rows p))) rows)))"
    unfolding set_labels using p unfolding heat_pivot_eq by auto
  have cells: "\<forall>(c, cells) \<in> set (pivot_rows p).
           cells = map (\<lambda>y. length (filter (\<lambda>r. country r = Some c \<and> year r = y) rows))
                     (pivot_columns p)"
    using pivot_row_cells(2) [OF p] by blast
  have srt: "sorted (map (\<lambda>row. sum_list (snd row)) (pivot_rows p))"
    using p unfolding heat_pivot_eq by auto
  have sub: "set (map fst (pivot_rows p)) \<subseteq> {c. \<exists>r \<in> set rows. country r = Some c}"
    unfolding set_labels by (rule set_top_countries_subset)
  from p dist_labels set_labels sub len dom cols cells srt show ?thesis
    by blast
qed

theorem heat_pivot_top_countries_witness:
  "heat_pivot 5 sample_rows
     = Inr \<lparr> pivot_columns = [2000, 2001],
             pivot_rows = [(''France'', [0, 1]), (''India'', [2, 0])] \<rparr>
   \<and> top_countries_list 5 sample_rows = [''India'', ''France'']
   \<and> min 5 (nunique (map country sample_rows)) = 2"
proof -
  have e: "heat_pivot 5 sample_rows
     = Inr \<lparr> pivot_columns = [2000, 2001],
             pivot_rows = [(''France'', [0, 1]), (''India'', [2, 0])] \<rparr>"
    by code_simp
  have t: "top_countries_list 5 sample_rows = [''India'', ''France'']"
    by code_simp
  from heat_pivot_top_countries [of 5 sample_rows] e
  have "length [(''France'', [0, 1 :: nat]), (''India'', [2, 0])] = min 5 (nunique (map country sample_rows))"
    by auto
  with e t show ?thesis by simp
qed

end
